theory Spec2Isabelle
  imports Complex_Main "HOL-Library.Word"
begin

section \<open>Yandex SpeechKit streaming client (\<^verbatim>\<open>output/yandex_stt.py\<close>)\<close>

text \<open>
  A shallow embedding of the class \<^verbatim>\<open>YandexSTTClient\<close>. Python \<^verbatim>\<open>str\<close> values are
  \<open>string\<close>, \<^verbatim>\<open>bytes\<close> values are lists of 8-bit words, Python integers are \<open>int\<close>.
  Exceptions are values of the type \<open>exn\<close>; a Python iterator that is consumed once is
  the list of the items it yields together with the exception that ends it, if any.
  The interpreter is CPython on a 64-bit platform.
\<close>

subsection \<open>Exceptions\<close>

datatype status_code =
  OK | CANCELLED | UNKNOWN | INVALID_ARGUMENT | DEADLINE_EXCEEDED | NOT_FOUND
  | ALREADY_EXISTS | PERMISSION_DENIED | RESOURCE_EXHAUSTED | FAILED_PRECONDITION
  | ABORTED | OUT_OF_RANGE | UNIMPLEMENTED | INTERNAL | UNAVAILABLE | DATA_LOSS
  | UNAUTHENTICATED

text \<open>The \<^verbatim>\<open>_state\<close> of a \<^verbatim>\<open>grpc._channel._Rendezvous\<close>: the fields the handler reads.\<close>

record rpc_state =
  code :: status_code
  details :: string

text \<open>
  \<open>Rendezvous\<close> is \<^verbatim>\<open>grpc._channel._Rendezvous\<close>, the only class the handler of
  \<^verbatim>\<open>transcribe\<close> catches; \<open>OSError\<close> is what \<^verbatim>\<open>open\<close> raises on a path it cannot open;
  \<open>IndexError\<close> is what \<^verbatim>\<open>alternatives[0]\<close> raises on an empty list; \<open>ValueError\<close>,
  \<open>OverflowError\<close> and \<open>MemoryError\<close> are what the message constructors, \<^verbatim>\<open>open\<close> and
  \<^verbatim>\<open>f.read\<close> raise on an argument they refuse.
\<close>

datatype exn =
  Rendezvous rpc_state | OSError string | IndexError | ValueError | OverflowError | MemoryError

type_synonym 'a iterator = "'a list \<times> exn option"

text \<open>A generator that yields \<open>x\<close> and then goes on as \<open>it\<close>.\<close>

fun yield :: "'a \<Rightarrow> 'a iterator \<Rightarrow> 'a iterator" where
  "yield x (xs, raised) = (x # xs, raised)"

subsection \<open>Process-wide settings and the client object\<close>

text \<open>
  \<^verbatim>\<open>config.settings.settings\<close> is imported, not defined, by the module: the four
  attributes the module reads are the fields of a parameter.
\<close>

record settings =
  SAMPLE_RATE :: int
  AUDIO_CHANNELS :: int
  CHUNK_SIZE :: int
  YANDEX_ENDPOINT :: string

record client =
  api_key :: string

subsection \<open>Outbound messages\<close>

type_synonym byte = "8 word"

datatype audio_encoding = AUDIO_ENCODING_UNSPECIFIED | LINEAR16_PCM

datatype text_normalization_mode =
  TEXT_NORMALIZATION_UNSPECIFIED | TEXT_NORMALIZATION_ENABLED | TEXT_NORMALIZATION_DISABLED

datatype restriction_kind = LANGUAGE_RESTRICTION_TYPE_UNSPECIFIED | WHITELIST | BLACKLIST

datatype processing_type = AUDIO_PROCESSING_TYPE_UNSPECIFIED | REAL_TIME | FULL_DATA

record RawAudio =
  audio_encoding :: audio_encoding
  sample_rate_hertz :: int
  audio_channel_count :: int

record AudioFormatOptions =
  raw_audio :: RawAudio

text \<open>
  The message \<^verbatim>\<open>TextNormalizationOptions\<close> has a field \<^verbatim>\<open>text_normalization\<close>, and so has
  \<^verbatim>\<open>RecognitionModelOptions\<close>; the inner one is \<open>text_normalization_mode\<close> here.
\<close>

record TextNormalizationOptions =
  text_normalization_mode :: text_normalization_mode
  profanity_filter :: bool
  literature_text :: bool

record LanguageRestrictionOptions =
  restriction_type :: restriction_kind
  language_code :: "string list"

record RecognitionModelOptions =
  audio_format :: AudioFormatOptions
  text_normalization :: TextNormalizationOptions
  language_restriction :: LanguageRestrictionOptions
  audio_processing_type :: processing_type

record StreamingOptions =
  recognition_model :: RecognitionModelOptions

record AudioChunk =
  data :: "byte list"

datatype StreamingRequest = session_options StreamingOptions | chunk AudioChunk

subsection \<open>Inbound messages\<close>

record Alternative =
  text_of :: string

record AlternativeUpdate =
  alternatives :: "Alternative list"

record FinalRefinement =
  normalized_text :: AlternativeUpdate

text \<open>
  A \<^verbatim>\<open>StreamingResponse\<close>: \<open>WhichOneof\<close> is the value of \<^verbatim>\<open>response.WhichOneof('Event')\<close>
  (the name of the populated field, or \<^verbatim>\<open>None\<close>), and the three sub-messages the loop
  reads. A sub-message that is not populated reads as the empty default.
\<close>

record StreamingResponse =
  WhichOneof :: "string option"
  partial :: AlternativeUpdate
  final :: AlternativeUpdate
  final_refinement :: FinalRefinement

subsection \<open>\<^verbatim>\<open>_create_streaming_options\<close>\<close>

text \<open>
  \<^verbatim>\<open>sample_rate_hertz\<close> and \<^verbatim>\<open>audio_channel_count\<close> are \<^verbatim>\<open>int64\<close> fields: the constructor
  of \<^verbatim>\<open>RawAudio\<close> raises \<^verbatim>\<open>ValueError\<close> on a Python integer outside that range, and stores
  any integer inside it, positive or not.
\<close>

definition int64 :: "int \<Rightarrow> bool" where
  "int64 n \<longleftrightarrow> - (2 ^ 63) \<le> n \<and> n < 2 ^ 63"

definition new_RawAudio :: "audio_encoding \<Rightarrow> int \<Rightarrow> int \<Rightarrow> exn + RawAudio" where
  "new_RawAudio encoding rate channels =
     (if int64 rate \<and> int64 channels then
        Inr \<lparr>audio_encoding = encoding, sample_rate_hertz = rate,
             audio_channel_count = channels\<rparr>
      else Inl ValueError)"

text \<open>
  The innermost constructor is evaluated first; when it raises, so does the method. No
  other constructor of the expression is given a value it can refuse.
\<close>

definition create_streaming_options :: "client \<Rightarrow> settings \<Rightarrow> exn + StreamingOptions" where
  "create_streaming_options self s =
     (case new_RawAudio LINEAR16_PCM (SAMPLE_RATE s) (AUDIO_CHANNELS s) of
        Inl e \<Rightarrow> Inl e
      | Inr raw \<Rightarrow>
          Inr \<lparr>recognition_model =
                 \<lparr>audio_format = \<lparr>raw_audio = raw\<rparr>,
                  text_normalization =
                    \<lparr>text_normalization_mode = TEXT_NORMALIZATION_ENABLED,
                     profanity_filter = True,
                     literature_text = False\<rparr>,
                  language_restriction =
                    \<lparr>restriction_type = WHITELIST,
                     language_code = [''ru-RU'']\<rparr>,
                  audio_processing_type = REAL_TIME\<rparr>\<rparr>)"

subsection \<open>\<^verbatim>\<open>_audio_generator\<close>\<close>

text \<open>
  The platform the process runs on: the files that can be opened, with their contents,
  and the sizes of \<^verbatim>\<open>bytes\<close> object the allocator grants.
\<close>

record platform =
  files :: "string \<rightharpoonup> byte list"
  can_allocate :: "nat \<Rightarrow> bool"

text \<open>
  \<^verbatim>\<open>open(path, 'rb')\<close>: a path with an embedded null character is refused with
  \<^verbatim>\<open>ValueError\<close> before the file system is asked; a path the file system cannot open
  raises \<^verbatim>\<open>OSError\<close>.
\<close>

definition open_rb :: "platform \<Rightarrow> string \<Rightarrow> exn + byte list" where
  "open_rb fs path =
     (if CHR 0x00 \<in> set path then Inl ValueError
      else case files fs path of
             None \<Rightarrow> Inl (OSError path)
           | Some f \<Rightarrow> Inr f)"

text \<open>The largest \<^verbatim>\<open>Py_ssize_t\<close>, and the bytes a \<^verbatim>\<open>bytes\<close> object takes besides its data.\<close>

definition PY_SSIZE_T_MAX :: int where
  "PY_SSIZE_T_MAX = 2 ^ 63 - 1"

definition PyBytesObject_SIZE :: int where
  "PyBytesObject_SIZE = 33"

text \<open>
  An open binary file is the bytes not yet read. \<^verbatim>\<open>f.read(sz)\<close> returns the data and
  leaves the file advanced, or raises:
  \<^item> a size that is no \<^verbatim>\<open>Py_ssize_t\<close> raises \<^verbatim>\<open>OverflowError\<close>;
  \<^item> a size below \<open>-1\<close> raises \<^verbatim>\<open>ValueError\<close>;
  \<^item> the size \<open>-1\<close> reads to the end, into a buffer for the rest of the file;
  \<^item> the size \<open>0\<close> returns the empty \<^verbatim>\<open>bytes\<close> object, which is never allocated;
  \<^item> a size for which no \<^verbatim>\<open>bytes\<close> object exists raises \<^verbatim>\<open>OverflowError\<close>;
  \<^item> otherwise a buffer of \<open>sz\<close> bytes is allocated before the file is looked at, which
    raises \<^verbatim>\<open>MemoryError\<close> when the allocator refuses, and at most \<open>sz\<close> bytes are read.
\<close>

definition f_read :: "platform \<Rightarrow> int \<Rightarrow> byte list \<Rightarrow> exn + byte list \<times> byte list" where
  "f_read fs sz f =
     (if sz < - PY_SSIZE_T_MAX - 1 \<or> PY_SSIZE_T_MAX < sz then Inl OverflowError
      else if sz < - 1 then Inl ValueError
      else if sz = - 1 then
        (if can_allocate fs (length f) then Inr (f, []) else Inl MemoryError)
      else if sz = 0 then Inr ([], f)
      else if PY_SSIZE_T_MAX - PyBytesObject_SIZE < sz then Inl OverflowError
      else if can_allocate fs (nat sz) then Inr (take (nat sz) f, drop (nat sz) f)
      else Inl MemoryError)"

text \<open>
  The \<^verbatim>\<open>while True\<close> loop of the generator: the requests it yields until the read is empty
  or raises.
\<close>

function read_loop :: "platform \<Rightarrow> int \<Rightarrow> byte list \<Rightarrow> StreamingRequest iterator" where
  "read_loop fs sz f =
     (case f_read fs sz f of
        Inl e \<Rightarrow> ([], Some e)
      | Inr (d, rest) \<Rightarrow>
          if d = [] then ([], None)
          else yield (chunk \<lparr>data = d\<rparr>) (read_loop fs sz rest))"
  by pat_completeness auto
termination
  by (relation "measure (\<lambda>(fs, sz, f). length f)") (auto simp: f_read_def split: if_splits)

declare read_loop.simps [simp del]

text \<open>
  The generator builds and yields the configuration message before it opens the file;
  an exception raised by any step ends it after the requests yielded so far.
\<close>

definition audio_generator ::
  "client \<Rightarrow> settings \<Rightarrow> platform \<Rightarrow> string \<Rightarrow> StreamingRequest iterator" where
  "audio_generator self s fs audio_file_path =
     (case create_streaming_options self s of
        Inl e \<Rightarrow> ([], Some e)
      | Inr opts \<Rightarrow>
          yield (session_options opts)
            (case open_rb fs audio_file_path of
               Inl e \<Rightarrow> ([], Some e)
             | Inr f \<Rightarrow> read_loop fs (CHUNK_SIZE s) f))"

text \<open>
  The bytes a request carries, \<^verbatim>\<open>request.chunk.data\<close>: empty when the request is not an
  audio chunk.
\<close>

fun chunk_data :: "StreamingRequest \<Rightarrow> byte list" where
  "chunk_data (chunk c) = data c"
| "chunk_data (session_options opts) = []"

subsection \<open>\<^verbatim>\<open>transcribe\<close>\<close>

text \<open>The calls of \<^verbatim>\<open>self.logger\<close>, one constructor per call site, with the values formatted.\<close>

datatype log_record =
  Info_start string
  | Debug_partial string
  | Info_final nat string
  | Debug_refined string
  | Error_grpc status_code string
  | Info_done nat nat

text \<open>The two local lists of \<^verbatim>\<open>transcribe\<close> and the records logged so far.\<close>

record session =
  segments :: "string list"
  intermediate_texts :: "string list"
  log :: "log_record list"

text \<open>\<^verbatim>\<open>alts[0].text\<close>: indexing an empty repeated field raises.\<close>

definition first_text :: "Alternative list \<Rightarrow> exn + string" where
  "first_text alts = (case alts of [] \<Rightarrow> Inl IndexError | a # _ \<Rightarrow> Inr (text_of a))"

text \<open>The body of the \<^verbatim>\<open>for\<close> loop, lines 86 to 102.\<close>

definition loop_body :: "bool \<Rightarrow> session \<Rightarrow> StreamingResponse \<Rightarrow> exn + session" where
  "loop_body save_intermediate st response =
     (let event_type = WhichOneof response in
      if event_type = Some ''partial'' \<and> length (alternatives (partial response)) > 0 then
        (case first_text (alternatives (partial response)) of
           Inl e \<Rightarrow> Inl e
         | Inr text \<Rightarrow>
             if save_intermediate then
               Inr (st\<lparr>intermediate_texts := intermediate_texts st @ [text],
                       log := log st @ [Debug_partial text]\<rparr>)
             else Inr st)
      else if event_type = Some ''final'' \<and> length (alternatives (final response)) > 0 then
        (case first_text (alternatives (final response)) of
           Inl e \<Rightarrow> Inl e
         | Inr text \<Rightarrow>
             Inr (st\<lparr>segments := segments st @ [text],
                     log := log st @ [Info_final (length (segments st @ [text])) text]\<rparr>))
      else if event_type = Some ''final_refinement'' then
        (if length (alternatives (normalized_text (final_refinement response))) > 0 then
           (case first_text (alternatives (normalized_text (final_refinement response))) of
              Inl e \<Rightarrow> Inl e
            | Inr refined \<Rightarrow> Inr (st\<lparr>log := log st @ [Debug_refined refined]\<rparr>))
         else Inr st)
      else Inr st)"

text \<open>
  The \<^verbatim>\<open>for\<close> loop over the response iterator: the state when the loop is left, and the
  exception that left it, raised by the body or by the iterator after its last item.
\<close>

fun for_loop :: "bool \<Rightarrow> session \<Rightarrow> StreamingResponse iterator \<Rightarrow> exn option \<times> session" where
  "for_loop save_intermediate st ([], raised) = (raised, st)"
| "for_loop save_intermediate st (response # rest, raised) =
     (case loop_body save_intermediate st response of
        Inl e \<Rightarrow> (Some e, st)
      | Inr st' \<Rightarrow> for_loop save_intermediate st' (rest, raised))"

text \<open>\<^verbatim>\<open>sep.join(xs)\<close>.\<close>

fun join :: "string \<Rightarrow> string list \<Rightarrow> string" where
  "join sep [] = []"
| "join sep [x] = x"
| "join sep (x # y # ys) = x @ sep @ join sep (y # ys)"

text \<open>
  \<^verbatim>\<open>stub.RecognizeStreaming\<close> on the channel to an endpoint: the transport and the server,
  a parameter. It is given the request iterator and the call metadata and returns the
  response iterator.
\<close>

type_synonym recognizer =
  "string \<Rightarrow> StreamingRequest iterator \<Rightarrow> (string \<times> string) list \<Rightarrow> StreamingResponse iterator"

text \<open>
  \<^verbatim>\<open>transcribe\<close>: what the caller gets (the exception raised, or the returned pair) and the
  records logged.
\<close>

definition transcribe ::
  "client \<Rightarrow> settings \<Rightarrow> platform \<Rightarrow> recognizer \<Rightarrow> string \<Rightarrow> bool \<Rightarrow>
     (exn + string \<times> string list) \<times> log_record list" where
  "transcribe self s fs RecognizeStreaming audio_file_path save_intermediate =
     (let stream = RecognizeStreaming (YANDEX_ENDPOINT s)
                     (audio_generator self s fs audio_file_path)
                     [(''authorization'', ''Api-Key '' @ api_key self)];
          st0 = \<lparr>segments = [], intermediate_texts = [],
                 log = [Info_start audio_file_path]\<rparr>;
          (raised, st) = for_loop save_intermediate st0 stream
      in case raised of
           Some (Rendezvous err) \<Rightarrow>
             (Inl (Rendezvous err), log st @ [Error_grpc (code err) (details err)])
         | Some e \<Rightarrow> (Inl e, log st)
         | None \<Rightarrow>
             (let full_text = join '' '' (segments st)
              in (Inr (full_text, segments st),
                  log st @ [Info_done (length (segments st)) (length full_text)])))"

subsection \<open>Notation for the statements\<close>

text \<open>
  The response iterator of one call of \<^verbatim>\<open>transcribe\<close>; the condition of the branch at line 94,
  under which a response is appended to \<^verbatim>\<open>segments\<close>; and the text that branch appends.
\<close>

abbreviation response_stream ::
  "client \<Rightarrow> settings \<Rightarrow> platform \<Rightarrow> recognizer \<Rightarrow> string \<Rightarrow> StreamingResponse iterator" where
  "response_stream self s fs RecognizeStreaming audio_file_path \<equiv>
     RecognizeStreaming (YANDEX_ENDPOINT s) (audio_generator self s fs audio_file_path)
       [(''authorization'', ''Api-Key '' @ api_key self)]"

abbreviation commits :: "StreamingResponse \<Rightarrow> bool" where
  "commits r \<equiv> WhichOneof r = Some ''final'' \<and> alternatives (final r) \<noteq> []"

abbreviation final_text :: "StreamingResponse \<Rightarrow> string" where
  "final_text r \<equiv> text_of (hd (alternatives (final r)))"

text \<open>
  The sizes at which every \<^verbatim>\<open>f.read\<close> of the generator returns: positive, small enough for
  a \<^verbatim>\<open>bytes\<close> object, and granted by the allocator.
\<close>

abbreviation granted :: "platform \<Rightarrow> int \<Rightarrow> bool" where
  "granted fs sz \<equiv>
     0 < sz \<and> sz \<le> PY_SSIZE_T_MAX - PyBytesObject_SIZE \<and> can_allocate fs (nat sz)"

subsection \<open>Example inputs\<close>

text \<open>
  Concrete inputs at which the theorems are instantiated: a five-byte file read in chunks
  of two bytes, an empty file, an allocator that grants up to a mebibyte, and the
  responses of a short session.
\<close>

abbreviation example_client :: client where
  "example_client \<equiv> \<lparr>api_key = ''secret''\<rparr>"

abbreviation example_settings :: settings where
  "example_settings \<equiv>
     \<lparr>SAMPLE_RATE = 8000, AUDIO_CHANNELS = 1, CHUNK_SIZE = 2,
      YANDEX_ENDPOINT = ''stt.api.cloud.yandex.net:443''\<rparr>"

abbreviation example_fs :: platform where
  "example_fs \<equiv>
     \<lparr>files = [''audio.pcm'' \<mapsto> [1, 2, 3, 4, 5], ''empty.pcm'' \<mapsto> []],
      can_allocate = (\<lambda>n. n \<le> 1048576)\<rparr>"

abbreviation no_alternatives :: AlternativeUpdate where
  "no_alternatives \<equiv> \<lparr>alternatives = []\<rparr>"

abbreviation partial_event :: "string \<Rightarrow> StreamingResponse" where
  "partial_event t \<equiv>
     \<lparr>WhichOneof = Some ''partial'', partial = \<lparr>alternatives = [\<lparr>text_of = t\<rparr>]\<rparr>,
      final = no_alternatives, final_refinement = \<lparr>normalized_text = no_alternatives\<rparr>\<rparr>"

abbreviation final_event :: "string \<Rightarrow> StreamingResponse" where
  "final_event t \<equiv>
     \<lparr>WhichOneof = Some ''final'', partial = no_alternatives,
      final = \<lparr>alternatives = [\<lparr>text_of = t\<rparr>]\<rparr>,
      final_refinement = \<lparr>normalized_text = no_alternatives\<rparr>\<rparr>"

abbreviation sparse_event :: "string option \<Rightarrow> StreamingResponse" where
  "sparse_event which \<equiv>
     \<lparr>WhichOneof = which, partial = no_alternatives, final = no_alternatives,
      final_refinement = \<lparr>normalized_text = no_alternatives\<rparr>\<rparr>"

abbreviation example_events :: "StreamingResponse list" where
  "example_events \<equiv>
     [partial_event ''hel'', partial_event ''hello'', final_event ''hello'',
      partial_event ''wor'', final_event ''world'']"

abbreviation example_server :: "StreamingResponse iterator \<Rightarrow> recognizer" where
  "example_server stream \<equiv> (\<lambda>endpoint requests metadata. stream)"

section \<open>Properties\<close>

subsection \<open>The receive loop\<close>

lemma loop_body_returns: "\<exists>st'. loop_body b st r = Inr st'"
  by (auto simp: loop_body_def first_text_def Let_def split: list.splits)

lemma loop_body_segments:
  "loop_body b st r = Inr st' \<Longrightarrow>
   segments st' = segments st @
     (if WhichOneof r = Some ''final'' \<and> alternatives (final r) \<noteq> []
      then [text_of (hd (alternatives (final r)))] else [])"
  by (auto simp: loop_body_def first_text_def Let_def split: list.splits if_splits)

lemma for_loop_segments:
  "\<exists>st'. for_loop b st (msgs, raised) = (raised, st') \<and>
     segments st' = segments st @
       map (\<lambda>r. text_of (hd (alternatives (final r))))
         (filter (\<lambda>r. WhichOneof r = Some ''final'' \<and> alternatives (final r) \<noteq> []) msgs)"
proof (induction msgs arbitrary: st)
  case Nil
  show ?case by simp
next
  case (Cons r msgs)
  obtain st1 where st1: "loop_body b st r = Inr st1"
    using loop_body_returns by blast
  from Cons.IH [of st1] obtain st' where
    "for_loop b st1 (msgs, raised) = (raised, st')"
    "segments st' = segments st1 @
       map (\<lambda>r. text_of (hd (alternatives (final r))))
         (filter (\<lambda>r. WhichOneof r = Some ''final'' \<and> alternatives (final r) \<noteq> []) msgs)"
    by blast
  with st1 loop_body_segments [OF st1] show ?case
    by simp
qed

lemma transcribe_clean:
  assumes "response_stream self s fs R p = (msgs, None)"
  shows "fst (transcribe self s fs R p save) =
    Inr (join '' '' (map final_text (filter commits msgs)), map final_text (filter commits msgs))"
proof -
  obtain st' where
    "for_loop save \<lparr>segments = [], intermediate_texts = [], log = [Info_start p]\<rparr> (msgs, None)
       = (None, st')"
    "segments st' = map final_text (filter commits msgs)"
    using for_loop_segments [of save "\<lparr>segments = [], intermediate_texts = [], log = [Info_start p]\<rparr>" msgs None]
    by auto
  with assms show ?thesis
    by (simp add: transcribe_def Let_def)
qed

lemma transcribe_raised:
  assumes "response_stream self s fs R p = (msgs, Some e)"
  shows "fst (transcribe self s fs R p save) = Inl e"
proof -
  obtain st' where
    "for_loop save \<lparr>segments = [], intermediate_texts = [], log = [Info_start p]\<rparr> (msgs, Some e)
       = (Some e, st')"
    using for_loop_segments [of save "\<lparr>segments = [], intermediate_texts = [], log = [Info_start p]\<rparr>" msgs "Some e"]
    by auto
  with assms show ?thesis
    by (simp add: transcribe_def Let_def split: exn.splits)
qed

lemma transcribe_raised_log:
  assumes "response_stream self s fs R p = (msgs, Some (Rendezvous err))"
  shows "last (snd (transcribe self s fs R p save)) = Error_grpc (code err) (details err)"
proof -
  obtain st' where
    "for_loop save \<lparr>segments = [], intermediate_texts = [], log = [Info_start p]\<rparr>
       (msgs, Some (Rendezvous err)) = (Some (Rendezvous err), st')"
    using for_loop_segments [of save "\<lparr>segments = [], intermediate_texts = [], log = [Info_start p]\<rparr>" msgs "Some (Rendezvous err)"]
    by auto
  with assms show ?thesis
    by (simp add: transcribe_def Let_def)
qed

lemma loop_body_frame:
  "\<not> commits r \<Longrightarrow> loop_body save st r = Inr st' \<Longrightarrow> segments st' = segments st"
  using loop_body_segments [of save st r st'] by simp

lemma loop_body_sparse:
  assumes "(WhichOneof r = Some ''partial'' \<and> alternatives (partial r) = []) \<or>
           (WhichOneof r = Some ''final'' \<and> alternatives (final r) = []) \<or>
           (WhichOneof r \<noteq> Some ''partial'' \<and> WhichOneof r \<noteq> Some ''final'')"
  shows "\<exists>st'. loop_body save st r = Inr st' \<and> segments st' = segments st \<and>
           intermediate_texts st' = intermediate_texts st"
  using assms by (auto simp: loop_body_def first_text_def Let_def split: list.splits)

lemma loop_body_no_op:
  assumes "(WhichOneof r = Some ''partial'' \<and> alternatives (partial r) = []) \<or>
           (WhichOneof r = Some ''final'' \<and> alternatives (final r) = []) \<or>
           (WhichOneof r \<noteq> Some ''partial'' \<and> WhichOneof r \<noteq> Some ''final'')"
    and "WhichOneof r = Some ''final_refinement'' \<longrightarrow>
           alternatives (normalized_text (final_refinement r)) = []"
  shows "loop_body save st r = Inr st"
  using assms by (auto simp: loop_body_def first_text_def Let_def split: list.splits)

lemma transcribe_flag:
  "fst (transcribe self s fs R p True) = fst (transcribe self s fs R p False)"
proof (cases "response_stream self s fs R p")
  case (Pair msgs raised)
  show ?thesis
  proof (cases raised)
    case None
    with Pair show ?thesis by (simp add: transcribe_clean)
  next
    case (Some e)
    with Pair show ?thesis by (simp add: transcribe_raised)
  qed
qed

subsection \<open>The configuration message\<close>

lemma create_streaming_options_returns:
  assumes "int64 (SAMPLE_RATE s)" and "int64 (AUDIO_CHANNELS s)"
  shows "create_streaming_options self s =
    Inr \<lparr>recognition_model =
           \<lparr>audio_format =
              \<lparr>raw_audio =
                 \<lparr>audio_encoding = LINEAR16_PCM, sample_rate_hertz = SAMPLE_RATE s,
                  audio_channel_count = AUDIO_CHANNELS s\<rparr>\<rparr>,
            text_normalization =
              \<lparr>text_normalization_mode = TEXT_NORMALIZATION_ENABLED, profanity_filter = True,
               literature_text = False\<rparr>,
            language_restriction = \<lparr>restriction_type = WHITELIST, language_code = [''ru-RU'']\<rparr>,
            audio_processing_type = REAL_TIME\<rparr>\<rparr>"
  using assms by (simp add: create_streaming_options_def new_RawAudio_def)

lemma create_streaming_options_raises:
  assumes "\<not> (int64 (SAMPLE_RATE s) \<and> int64 (AUDIO_CHANNELS s))"
  shows "create_streaming_options self s = Inl ValueError"
  using assms by (auto simp: create_streaming_options_def new_RawAudio_def)

subsection \<open>The read loop of the request generator\<close>

lemma yield_fst: "fst (yield x it) = x # fst it"
  by (cases it) simp

lemma yield_snd: "snd (yield x it) = snd it"
  by (cases it) simp

lemma f_read_shorter:
  "f_read fs sz f = Inr (d, rest) \<Longrightarrow> d \<noteq> [] \<Longrightarrow> length rest < length f"
  by (auto simp: f_read_def split: if_splits)

lemma read_loop_chunks: "\<forall>m \<in> set (fst (read_loop fs sz f)). \<exists>c. m = chunk c \<and> data c \<noteq> []"
proof (induction "length f" arbitrary: f rule: less_induct)
  case less
  show ?case
  proof (cases "f_read fs sz f")
    case (Inl e)
    then show ?thesis by (subst read_loop.simps) simp
  next
    case (Inr p)
    obtain d rest where p: "p = (d, rest)" by (cases p)
    show ?thesis
    proof (cases "d = []")
      case True
      with Inr p show ?thesis by (subst read_loop.simps) simp
    next
      case False
      with Inr p have "length rest < length f" by (simp add: f_read_shorter)
      from less [OF this] Inr p False show ?thesis
        by (subst read_loop.simps) (simp add: yield_fst)
    qed
  qed
qed

lemma f_read_pos:
  assumes "granted fs sz"
  shows "f_read fs sz f = Inr (take (nat sz) f, drop (nat sz) f)"
  using assms by (simp add: f_read_def PY_SSIZE_T_MAX_def PyBytesObject_SIZE_def)

lemma read_loop_pos:
  assumes "granted fs sz"
  shows "read_loop fs sz f =
     (if f = [] then ([], None)
      else yield (chunk \<lparr>data = take (nat sz) f\<rparr>) (read_loop fs sz (drop (nat sz) f)))"
  using assms by (subst read_loop.simps) (simp add: f_read_pos)

lemma read_loop_ends:
  assumes "granted fs sz"
  shows "snd (read_loop fs sz f) = None"
proof (induction "length f" arbitrary: f rule: less_induct)
  case less
  have step: "read_loop fs sz f =
     (if f = [] then ([], None)
      else yield (chunk \<lparr>data = take (nat sz) f\<rparr>) (read_loop fs sz (drop (nat sz) f)))"
    using assms by (rule read_loop_pos)
  show ?case
  proof (cases "f = []")
    case True
    with step show ?thesis by simp
  next
    case False
    with assms have "length (drop (nat sz) f) < length f" by simp
    from less [OF this] False step show ?thesis by (simp add: yield_snd)
  qed
qed

lemma read_loop_concat:
  assumes "granted fs sz"
  shows "concat (map chunk_data (fst (read_loop fs sz f))) = f"
proof (induction "length f" arbitrary: f rule: less_induct)
  case less
  have step: "read_loop fs sz f =
     (if f = [] then ([], None)
      else yield (chunk \<lparr>data = take (nat sz) f\<rparr>) (read_loop fs sz (drop (nat sz) f)))"
    using assms by (rule read_loop_pos)
  show ?case
  proof (cases "f = []")
    case True
    with step show ?thesis by simp
  next
    case False
    with assms have "length (drop (nat sz) f) < length f" by simp
    from less [OF this] False step show ?thesis by (simp add: yield_fst)
  qed
qed

lemma ceil_nat:
  fixes L C :: nat
  assumes "0 < C"
  shows "\<lceil>real L / real C\<rceil> = int ((L + C - 1) div C)"
proof (cases "L = 0")
  case True
  with assms show ?thesis by simp
next
  case False
  define q where "q = (L - 1) div C"
  define r where "r = (L - 1) mod C"
  have L: "L = q * C + r + 1" and r: "r < C"
    using False assms by (simp_all add: q_def r_def)
  have lo: "q * C < L" and hi: "L \<le> (q + 1) * C"
    using L r by simp_all
  have "(r + (q + 1) * C) div C = (q + 1) + r div C"
    using assms by (intro div_mult_self1) simp
  moreover have "L + C - 1 = r + (q + 1) * C"
    using L by simp
  ultimately have div: "(L + C - 1) div C = q + 1"
    using r by (simp only: div_less add_0_right)
  have "\<lceil>real L / real C\<rceil> = int q + 1"
  proof (rule ceiling_unique)
    have "real (q * C) < real L"
      using lo by (simp only: of_nat_less_iff)
    then show "of_int (int q + 1) - 1 < real L / real C"
      using assms by (simp add: pos_less_divide_eq)
    have "real L \<le> real ((q + 1) * C)"
      using hi by (simp only: of_nat_le_iff)
    then show "real L / real C \<le> of_int (int q + 1)"
      using assms by (simp add: pos_divide_le_eq algebra_simps)
  qed
  with div show ?thesis by simp
qed

lemma ceil_step:
  fixes L C :: nat
  assumes "0 < C" "0 < L"
  shows "Suc ((L - C + C - 1) div C) = (L + C - 1) div C"
proof (cases "L \<le> C")
  case True
  with assms have "(L + C - 1) div C = 1"
    by (simp add: div_nat_eqI)
  with True assms show ?thesis by simp
next
  case False
  then have a: "L + C - 1 = (L - 1) + C" and b: "L - C + C - 1 = L - 1"
    using assms by simp_all
  have "(L - 1 + C) div C = Suc ((L - 1) div C)"
    using assms(1) div_add_self2 [of C "L - 1"] by simp
  with a b show ?thesis by simp
qed

lemma read_loop_length:
  assumes "granted fs sz"
  shows "length (fst (read_loop fs sz f)) = (length f + nat sz - 1) div nat sz"
proof (induction "length f" arbitrary: f rule: less_induct)
  case less
  have step: "read_loop fs sz f =
     (if f = [] then ([], None)
      else yield (chunk \<lparr>data = take (nat sz) f\<rparr>) (read_loop fs sz (drop (nat sz) f)))"
    using assms by (rule read_loop_pos)
  show ?case
  proof (cases "f = []")
    case True
    with step assms show ?thesis by simp
  next
    case False
    with assms have "length (drop (nat sz) f) < length f" by simp
    from less [OF this]
    have "length (fst (read_loop fs sz (drop (nat sz) f))) =
        (length f - nat sz + nat sz - 1) div nat sz"
      by simp
    with False step assms ceil_step [of "nat sz" "length f"] show ?thesis
      by (simp add: yield_fst)
  qed
qed

lemma read_loop_nonempty:
  assumes "granted fs sz" and "f \<noteq> []"
  shows "fst (read_loop fs sz f) \<noteq> []"
  using assms read_loop_pos [where fs = fs and sz = sz and f = f] by (simp add: yield_fst)

lemma read_loop_full_chunks:
  assumes "granted fs sz"
  shows "\<forall>m \<in> set (butlast (fst (read_loop fs sz f))). length (chunk_data m) = nat sz"
proof (induction "length f" arbitrary: f rule: less_induct)
  case less
  have step: "read_loop fs sz f =
     (if f = [] then ([], None)
      else yield (chunk \<lparr>data = take (nat sz) f\<rparr>) (read_loop fs sz (drop (nat sz) f)))"
    using assms by (rule read_loop_pos)
  show ?case
  proof (cases "f = []")
    case True
    with step show ?thesis by simp
  next
    case False
    with assms have "length (drop (nat sz) f) < length f" by simp
    from less [OF this]
    have IH: "\<forall>m \<in> set (butlast (fst (read_loop fs sz (drop (nat sz) f)))).
        length (chunk_data m) = nat sz" .
    show ?thesis
    proof (cases "drop (nat sz) f = []")
      case True
      have "read_loop fs sz [] = ([], None)"
        using assms read_loop_pos [where fs = fs and sz = sz and f = "[]"] by simp
      with True False step show ?thesis
        by (simp add: yield_fst)
    next
      case d: False
      with assms have "fst (read_loop fs sz (drop (nat sz) f)) \<noteq> []"
        by (rule read_loop_nonempty)
      with False step IH d show ?thesis
        by (auto simp: yield_fst min_def)
    qed
  qed
qed

lemma read_loop_last:
  assumes "granted fs sz" and "f \<noteq> []"
  shows "length (chunk_data (last (fst (read_loop fs sz f)))) =
     (if length f mod nat sz = 0 then nat sz else length f mod nat sz)"
  using assms(2)
proof (induction "length f" arbitrary: f rule: less_induct)
  case less
  have pos: "0 < nat sz" using assms(1) by simp
  have step: "read_loop fs sz f =
     yield (chunk \<lparr>data = take (nat sz) f\<rparr>) (read_loop fs sz (drop (nat sz) f))"
    using assms(1) less.prems read_loop_pos [where fs = fs and sz = sz and f = f] by simp
  show ?case
  proof (cases "drop (nat sz) f = []")
    case True
    then have le: "length f \<le> nat sz" by simp
    have "read_loop fs sz [] = ([], None)"
      using assms(1) read_loop_pos [where fs = fs and sz = sz and f = "[]"] by simp
    with True step le have "length (chunk_data (last (fst (read_loop fs sz f)))) = length f"
      by (simp add: yield_fst)
    moreover have "(if length f mod nat sz = 0 then nat sz else length f mod nat sz) = length f"
      using le pos less.prems by (cases "length f = nat sz") auto
    ultimately show ?thesis by simp
  next
    case d: False
    then have gt: "nat sz < length f" by simp
    with pos have "length (drop (nat sz) f) < length f" by simp
    from less.hyps [OF this d]
    have IH: "length (chunk_data (last (fst (read_loop fs sz (drop (nat sz) f))))) =
       (if length (drop (nat sz) f) mod nat sz = 0 then nat sz
        else length (drop (nat sz) f) mod nat sz)" .
    have ne': "fst (read_loop fs sz (drop (nat sz) f)) \<noteq> []"
      using assms(1) d by (rule read_loop_nonempty)
    have "(length f - nat sz) mod nat sz = length f mod nat sz"
      using gt by (simp add: le_mod_geq)
    with IH ne' step show ?thesis
      by (simp add: yield_fst)
  qed
qed

subsection \<open>The exceptions of the request generator\<close>

lemma audio_generator_configuration_refused:
  assumes "\<not> (int64 (SAMPLE_RATE s) \<and> int64 (AUDIO_CHANNELS s))"
  shows "audio_generator self s fs audio_file_path = ([], Some ValueError)"
  using create_streaming_options_raises [OF assms, of self]
  by (simp add: audio_generator_def)

lemma read_loop_negative_size:
  assumes "sz < - 1"
  shows "read_loop fs sz f =
    ([], Some (if sz < - PY_SSIZE_T_MAX - 1 then OverflowError else ValueError))"
  using assms
  by (subst read_loop.simps) (simp add: f_read_def PY_SSIZE_T_MAX_def)

lemma read_loop_size_too_large:
  assumes "PY_SSIZE_T_MAX - PyBytesObject_SIZE < sz"
  shows "read_loop fs sz f = ([], Some OverflowError)"
  using assms
  by (subst read_loop.simps) (simp add: f_read_def PY_SSIZE_T_MAX_def PyBytesObject_SIZE_def)

lemma read_loop_allocation_refused:
  assumes "0 < sz" and "sz \<le> PY_SSIZE_T_MAX - PyBytesObject_SIZE"
    and "\<not> can_allocate fs (nat sz)"
  shows "read_loop fs sz f = ([], Some MemoryError)"
  using assms
  by (subst read_loop.simps) (simp add: f_read_def PY_SSIZE_T_MAX_def PyBytesObject_SIZE_def)

lemma read_loop_size_zero: "read_loop fs 0 f = ([], None)"
  by (subst read_loop.simps) (simp add: f_read_def PY_SSIZE_T_MAX_def)

section \<open>The properties of the specification\<close>

subsection \<open>The transcript\<close>

text \<open>
  C1. When the response iterator ends without an exception, \<^verbatim>\<open>transcribe\<close> returns the pair
  \<open>(full_text, segments)\<close> in which \<open>segments\<close> holds the first alternative's text of every
  \<^verbatim>\<open>final\<close> response with at least one alternative, in the order received and with repetitions
  kept, and \<open>full_text\<close> is \<open>segments\<close> joined by single spaces. Every pass through the loop
  body only appends to \<open>segments\<close>.
\<close>

theorem transcribe_full_text_is_join_of_segments:
  assumes "response_stream self s fs RecognizeStreaming audio_file_path = (msgs, None)"
  shows "fst (transcribe self s fs RecognizeStreaming audio_file_path save_intermediate) =
           Inr (join '' '' (map final_text (filter commits msgs)),
                map final_text (filter commits msgs)) \<and>
         (\<forall>st r st'. loop_body save_intermediate st r = Inr st' \<longrightarrow>
            (\<exists>appended. segments st' = segments st @ appended))"
proof
  show "fst (transcribe self s fs RecognizeStreaming audio_file_path save_intermediate) =
           Inr (join '' '' (map final_text (filter commits msgs)),
                map final_text (filter commits msgs))"
    using assms by (rule transcribe_clean)
  show "\<forall>st r st'. loop_body save_intermediate st r = Inr st' \<longrightarrow>
            (\<exists>appended. segments st' = segments st @ appended)"
    using loop_body_segments by blast
qed

theorem transcribe_full_text_is_join_of_segments_witness:
  "response_stream example_client example_settings example_fs
     (example_server (example_events, None)) ''audio.pcm'' = (example_events, None) \<and>
   fst (transcribe example_client example_settings example_fs
     (example_server (example_events, None)) ''audio.pcm'' False) =
     Inr (''hello world'', [''hello'', ''world''])"
  using transcribe_full_text_is_join_of_segments
    [where self = example_client and s = example_settings and fs = example_fs
       and RecognizeStreaming = "example_server (example_events, None)"
       and audio_file_path = "''audio.pcm''" and msgs = example_events
       and save_intermediate = False]
  by simp

text \<open>
  C2. When the response iterator ends without an exception, the returned \<open>segments\<close> has exactly
  one entry per \<^verbatim>\<open>final\<close> response with at least one alternative, whatever other responses are
  interleaved; the loop body leaves \<open>segments\<close> as it is on every other response.
\<close>

theorem only_final_events_mutate_segments:
  assumes "response_stream self s fs RecognizeStreaming audio_file_path = (msgs, None)"
  shows "(\<exists>full_text segs.
            fst (transcribe self s fs RecognizeStreaming audio_file_path save_intermediate) =
              Inr (full_text, segs) \<and>
            length segs = length (filter commits msgs)) \<and>
         (\<forall>st r st'. \<not> commits r \<longrightarrow> loop_body save_intermediate st r = Inr st' \<longrightarrow>
            segments st' = segments st)"
proof
  show "\<exists>full_text segs.
            fst (transcribe self s fs RecognizeStreaming audio_file_path save_intermediate) =
              Inr (full_text, segs) \<and>
            length segs = length (filter commits msgs)"
    using assms
      transcribe_clean [where self = self and s = s and fs = fs and R = RecognizeStreaming
        and p = audio_file_path and msgs = msgs and save = save_intermediate]
    by simp
  show "\<forall>st r st'. \<not> commits r \<longrightarrow> loop_body save_intermediate st r = Inr st' \<longrightarrow>
            segments st' = segments st"
    using loop_body_frame by blast
qed

theorem only_final_events_mutate_segments_witness:
  "response_stream example_client example_settings example_fs
     (example_server (example_events, None)) ''audio.pcm'' = (example_events, None) \<and>
   length (filter commits example_events) = 2 \<and>
   (\<exists>full_text segs.
      fst (transcribe example_client example_settings example_fs
        (example_server (example_events, None)) ''audio.pcm'' True) = Inr (full_text, segs) \<and>
      length segs = 2)"
  using only_final_events_mutate_segments
    [where self = example_client and s = example_settings and fs = example_fs
       and RecognizeStreaming = "example_server (example_events, None)"
       and audio_file_path = "''audio.pcm''" and msgs = example_events
       and save_intermediate = True]
  by (simp add: numeral_2_eq_2)

text \<open>
  C3. When the response iterator raises after any number of responses, \<^verbatim>\<open>transcribe\<close> raises
  that same exception, so its code and details reach the caller, and returns no
  \<open>(full_text, segments)\<close> pair; for a \<^verbatim>\<open>_Rendezvous\<close> the last record logged carries the code
  and the details.
\<close>

theorem transport_failure_is_raised:
  assumes "response_stream self s fs RecognizeStreaming audio_file_path = (msgs, Some e)"
  shows "fst (transcribe self s fs RecognizeStreaming audio_file_path save_intermediate) = Inl e \<and>
         (\<forall>err. e = Rendezvous err \<longrightarrow>
            last (snd (transcribe self s fs RecognizeStreaming audio_file_path save_intermediate)) =
              Error_grpc (code err) (details err))"
proof
  show "fst (transcribe self s fs RecognizeStreaming audio_file_path save_intermediate) = Inl e"
    using assms
      transcribe_raised [where self = self and s = s and fs = fs and R = RecognizeStreaming
        and p = audio_file_path and msgs = msgs and e = e and save = save_intermediate]
    by simp
  show "\<forall>err. e = Rendezvous err \<longrightarrow>
            last (snd (transcribe self s fs RecognizeStreaming audio_file_path save_intermediate)) =
              Error_grpc (code err) (details err)"
  proof (intro allI impI)
    fix err
    assume "e = Rendezvous err"
    with assms show
      "last (snd (transcribe self s fs RecognizeStreaming audio_file_path save_intermediate)) =
         Error_grpc (code err) (details err)"
      using transcribe_raised_log [where self = self and s = s and fs = fs
        and R = RecognizeStreaming and p = audio_file_path and msgs = msgs and err = err
        and save = save_intermediate]
      by simp
  qed
qed

theorem transport_failure_is_raised_witness:
  "response_stream example_client example_settings example_fs
     (example_server ([final_event ''hello''],
        Some (Rendezvous \<lparr>code = UNAVAILABLE, details = ''Socket closed''\<rparr>))) ''audio.pcm'' =
     ([final_event ''hello''],
        Some (Rendezvous \<lparr>code = UNAVAILABLE, details = ''Socket closed''\<rparr>)) \<and>
   fst (transcribe example_client example_settings example_fs
     (example_server ([final_event ''hello''],
        Some (Rendezvous \<lparr>code = UNAVAILABLE, details = ''Socket closed''\<rparr>))) ''audio.pcm'' False) =
     Inl (Rendezvous \<lparr>code = UNAVAILABLE, details = ''Socket closed''\<rparr>) \<and>
   last (snd (transcribe example_client example_settings example_fs
     (example_server ([final_event ''hello''],
        Some (Rendezvous \<lparr>code = UNAVAILABLE, details = ''Socket closed''\<rparr>))) ''audio.pcm'' False)) =
     Error_grpc UNAVAILABLE ''Socket closed''"
  using transport_failure_is_raised
    [where self = example_client and s = example_settings and fs = example_fs
       and RecognizeStreaming = "example_server ([final_event ''hello''],
           Some (Rendezvous \<lparr>code = UNAVAILABLE, details = ''Socket closed''\<rparr>))"
       and audio_file_path = "''audio.pcm''" and msgs = "[final_event ''hello'']"
       and e = "Rendezvous \<lparr>code = UNAVAILABLE, details = ''Socket closed''\<rparr>"
       and save_intermediate = False]
  by simp

text \<open>
  C9. What \<^verbatim>\<open>transcribe\<close> returns or raises is the same with \<^verbatim>\<open>save_intermediate\<close> set and
  unset.
\<close>

theorem save_intermediate_does_not_change_result:
  "fst (transcribe self s fs RecognizeStreaming audio_file_path True) =
   fst (transcribe self s fs RecognizeStreaming audio_file_path False)"
  by (rule transcribe_flag)

theorem save_intermediate_does_not_change_result_witness:
  "fst (transcribe example_client example_settings example_fs
     (example_server (example_events, None)) ''audio.pcm'' True) =
   fst (transcribe example_client example_settings example_fs
     (example_server (example_events, None)) ''audio.pcm'' False) \<and>
   snd (transcribe example_client example_settings example_fs
     (example_server (example_events, None)) ''audio.pcm'' True) \<noteq>
   snd (transcribe example_client example_settings example_fs
     (example_server (example_events, None)) ''audio.pcm'' False)"
  using save_intermediate_does_not_change_result
    [where self = example_client and s = example_settings and fs = example_fs
       and RecognizeStreaming = "example_server (example_events, None)"
       and audio_file_path = "''audio.pcm''"]
  by (simp add: transcribe_def loop_body_def first_text_def Let_def)

subsection \<open>Sparse responses\<close>

text \<open>
  C7. The loop body never raises. On a \<^verbatim>\<open>partial\<close> or \<^verbatim>\<open>final\<close> response with no alternatives,
  and on a response with any other discriminant, it leaves \<^verbatim>\<open>segments\<close> and
  \<^verbatim>\<open>intermediate_texts\<close> as they are; unless the response is a \<^verbatim>\<open>final_refinement\<close> that
  carries a normalized text, which is logged, nothing at all changes.
\<close>

theorem sparse_response_never_raises:
  "(\<exists>st'. loop_body save_intermediate st r = Inr st') \<and>
   ((WhichOneof r = Some ''partial'' \<and> alternatives (partial r) = []) \<or>
    (WhichOneof r = Some ''final'' \<and> alternatives (final r) = []) \<or>
    (WhichOneof r \<noteq> Some ''partial'' \<and> WhichOneof r \<noteq> Some ''final'') \<longrightarrow>
      (\<exists>st'. loop_body save_intermediate st r = Inr st' \<and> segments st' = segments st \<and>
         intermediate_texts st' = intermediate_texts st) \<and>
      ((WhichOneof r = Some ''final_refinement'' \<longrightarrow>
          alternatives (normalized_text (final_refinement r)) = []) \<longrightarrow>
        loop_body save_intermediate st r = Inr st))"
  using loop_body_returns [of save_intermediate st r]
    loop_body_sparse [of r save_intermediate st] loop_body_no_op [of r save_intermediate st]
  by blast

theorem sparse_response_never_raises_witness:
  "WhichOneof (sparse_event (Some ''final'')) = Some ''final'' \<and>
   alternatives (final (sparse_event (Some ''final''))) = [] \<and>
   loop_body True \<lparr>segments = [''hello''], intermediate_texts = [''hel''], log = []\<rparr>
     (sparse_event (Some ''final'')) =
   Inr \<lparr>segments = [''hello''], intermediate_texts = [''hel''], log = []\<rparr>"
  using sparse_response_never_raises
    [where r = "sparse_event (Some ''final'')" and save_intermediate = True
       and st = "\<lparr>segments = [''hello''], intermediate_texts = [''hel''], log = []\<rparr>"]
  by simp

subsection \<open>The outbound stream\<close>

text \<open>
  C5. When the sample rate and the channel count of the settings are \<^verbatim>\<open>int64\<close> values, so
  that the configuration message can be built, then for every audio path, readable or not,
  every file content and every chunk size the first request the generator yields is the
  configuration message, and every request after it is an audio chunk.
\<close>

theorem configuration_message_is_first:
  assumes "int64 (SAMPLE_RATE s)" and "int64 (AUDIO_CHANNELS s)"
  shows "\<exists>opts rest. create_streaming_options self s = Inr opts \<and>
    fst (audio_generator self s fs audio_file_path) = session_options opts # rest \<and>
    (\<forall>m \<in> set rest. \<exists>c. m = chunk c)"
proof -
  obtain opts where opts: "create_streaming_options self s = Inr opts"
    using assms create_streaming_options_returns [where s = s and self = self] by simp
  show ?thesis
  proof (cases "open_rb fs audio_file_path")
    case (Inl e)
    with opts show ?thesis by (simp add: audio_generator_def)
  next
    case (Inr f)
    with opts show ?thesis
      using read_loop_chunks [of fs "CHUNK_SIZE s" f]
      by (auto simp: audio_generator_def yield_fst)
  qed
qed

theorem configuration_message_is_first_witness:
  "int64 (SAMPLE_RATE example_settings) \<and> int64 (AUDIO_CHANNELS example_settings) \<and>
   (\<exists>opts rest. create_streaming_options example_client example_settings = Inr opts \<and>
      fst (audio_generator example_client example_settings example_fs ''audio.pcm'') =
        session_options opts # rest \<and>
      length rest = 3 \<and> (\<forall>m \<in> set rest. \<exists>c. m = chunk c))"
proof -
  have in_range: "int64 (SAMPLE_RATE example_settings)" "int64 (AUDIO_CHANNELS example_settings)"
    by (simp_all add: int64_def)
  have "length (fst (read_loop example_fs 2 [1, 2, 3, 4, 5])) = 3"
    using read_loop_length [where fs = example_fs and sz = 2 and f = "[1, 2, 3, 4, 5]"]
    by (simp add: PY_SSIZE_T_MAX_def PyBytesObject_SIZE_def)
  with in_range show ?thesis
    using configuration_message_is_first
      [where self = example_client and s = example_settings and fs = example_fs
         and audio_file_path = "''audio.pcm''"]
    by (auto simp: audio_generator_def open_rb_def yield_fst)
qed

text \<open>
  C6. Let the configuration message be buildable, the file open with \<open>L\<close> bytes, and the
  chunk size \<open>C\<close> be positive, small enough for a \<^verbatim>\<open>bytes\<close> object and granted by the
  allocator. Then the generator yields, after the configuration message, exactly
  \<open>\<lceil>L / C\<rceil>\<close> audio chunks and then stops without an exception; their data concatenated
  is the file; none is empty; all but the last hold \<open>C\<close> bytes, and the last holds
  \<open>L mod C\<close> bytes, or \<open>C\<close> when \<open>C\<close> divides \<open>L\<close>.
\<close>

theorem chunk_count_and_lengths:
  assumes "int64 (SAMPLE_RATE s)" and "int64 (AUDIO_CHANNELS s)"
    and "0 < CHUNK_SIZE s" and "CHUNK_SIZE s \<le> PY_SSIZE_T_MAX - PyBytesObject_SIZE"
    and "can_allocate fs (nat (CHUNK_SIZE s))"
    and "open_rb fs audio_file_path = Inr f"
  shows "\<exists>opts chunks.
    create_streaming_options self s = Inr opts \<and>
    audio_generator self s fs audio_file_path = (session_options opts # chunks, None) \<and>
    int (length chunks) = \<lceil>real (length f) / real_of_int (CHUNK_SIZE s)\<rceil> \<and>
    concat (map chunk_data chunks) = f \<and>
    (\<forall>m \<in> set chunks. \<exists>c. m = chunk c \<and> data c \<noteq> []) \<and>
    (\<forall>m \<in> set (butlast chunks). length (chunk_data m) = nat (CHUNK_SIZE s)) \<and>
    (f \<noteq> [] \<longrightarrow> length (chunk_data (last chunks)) =
       (if length f mod nat (CHUNK_SIZE s) = 0 then nat (CHUNK_SIZE s)
        else length f mod nat (CHUNK_SIZE s)))"
proof -
  obtain opts where opts: "create_streaming_options self s = Inr opts"
    using assms(1,2) create_streaming_options_returns [where s = s and self = self] by simp
  have g: "granted fs (CHUNK_SIZE s)"
    using assms(3-5) by simp
  define chunks where "chunks = fst (read_loop fs (CHUNK_SIZE s) f)"
  have loop: "read_loop fs (CHUNK_SIZE s) f = (chunks, None)"
    using read_loop_ends [OF g, of f] by (simp add: chunks_def prod_eq_iff)
  have gen: "audio_generator self s fs audio_file_path = (session_options opts # chunks, None)"
    using opts assms(6) loop by (simp add: audio_generator_def)
  have "\<lceil>real (length f) / real (nat (CHUNK_SIZE s))\<rceil> =
      int ((length f + nat (CHUNK_SIZE s) - 1) div nat (CHUNK_SIZE s))"
    using assms(3) by (intro ceil_nat) simp
  then have count: "int (length chunks) = \<lceil>real (length f) / real_of_int (CHUNK_SIZE s)\<rceil>"
    using assms(3) read_loop_length [OF g, of f] by (simp add: chunks_def)
  have cat: "concat (map chunk_data chunks) = f"
    using read_loop_concat [OF g, of f] by (simp add: chunks_def)
  have ne: "\<forall>m \<in> set chunks. \<exists>c. m = chunk c \<and> data c \<noteq> []"
    unfolding chunks_def by (rule read_loop_chunks)
  have full: "\<forall>m \<in> set (butlast chunks). length (chunk_data m) = nat (CHUNK_SIZE s)"
    unfolding chunks_def using g by (rule read_loop_full_chunks)
  have lst: "f \<noteq> [] \<longrightarrow> length (chunk_data (last chunks)) =
       (if length f mod nat (CHUNK_SIZE s) = 0 then nat (CHUNK_SIZE s)
        else length f mod nat (CHUNK_SIZE s))"
    unfolding chunks_def using read_loop_last [OF g, of f] by blast
  from opts gen count cat ne full lst show ?thesis
    by blast
qed

theorem chunk_count_and_lengths_witness:
  "int64 (SAMPLE_RATE example_settings) \<and> int64 (AUDIO_CHANNELS example_settings) \<and>
   0 < CHUNK_SIZE example_settings \<and>
   CHUNK_SIZE example_settings \<le> PY_SSIZE_T_MAX - PyBytesObject_SIZE \<and>
   can_allocate example_fs (nat (CHUNK_SIZE example_settings)) \<and>
   open_rb example_fs ''audio.pcm'' = Inr [1, 2, 3, 4, 5] \<and>
   (\<exists>opts chunks.
      create_streaming_options example_client example_settings = Inr opts \<and>
      audio_generator example_client example_settings example_fs ''audio.pcm'' =
        (session_options opts # chunks, None) \<and>
      length chunks = 3 \<and> concat (map chunk_data chunks) = [1, 2, 3, 4, 5] \<and>
      length (chunk_data (last chunks)) = 1)"
proof -
  have hyps: "int64 (SAMPLE_RATE example_settings)" "int64 (AUDIO_CHANNELS example_settings)"
    "0 < CHUNK_SIZE example_settings"
    "CHUNK_SIZE example_settings \<le> PY_SSIZE_T_MAX - PyBytesObject_SIZE"
    "can_allocate example_fs (nat (CHUNK_SIZE example_settings))"
    "open_rb example_fs ''audio.pcm'' = Inr [1, 2, 3, 4, 5]"
    by (simp_all add: int64_def PY_SSIZE_T_MAX_def PyBytesObject_SIZE_def open_rb_def)
  from hyps show ?thesis
    using chunk_count_and_lengths
      [where self = example_client and s = example_settings and fs = example_fs
         and audio_file_path = "''audio.pcm''" and f = "[1, 2, 3, 4, 5]"]
    by auto
qed

text \<open>
  C8. Let the configuration message be buildable, the file open empty, and the chunk size
  be positive, small enough for a \<^verbatim>\<open>bytes\<close> object and granted by the allocator. Then the
  generator yields the configuration message and nothing else, and stops without an
  exception; and when the response iterator then ends without an exception and without a
  \<^verbatim>\<open>final\<close> response that has an alternative, \<^verbatim>\<open>transcribe\<close> returns the empty text and no
  segments.
\<close>

theorem empty_audio_source:
  assumes "int64 (SAMPLE_RATE s)" and "int64 (AUDIO_CHANNELS s)"
    and "0 < CHUNK_SIZE s" and "CHUNK_SIZE s \<le> PY_SSIZE_T_MAX - PyBytesObject_SIZE"
    and "can_allocate fs (nat (CHUNK_SIZE s))"
    and "open_rb fs audio_file_path = Inr []"
  shows "(\<exists>opts. create_streaming_options self s = Inr opts \<and>
            audio_generator self s fs audio_file_path = ([session_options opts], None)) \<and>
         (\<forall>msgs. response_stream self s fs RecognizeStreaming audio_file_path = (msgs, None) \<and>
            filter commits msgs = [] \<longrightarrow>
            fst (transcribe self s fs RecognizeStreaming audio_file_path save_intermediate) =
              Inr ('''', []))"
proof
  obtain opts where opts: "create_streaming_options self s = Inr opts"
    using assms(1,2) create_streaming_options_returns [where s = s and self = self] by simp
  have "read_loop fs (CHUNK_SIZE s) [] = ([], None)"
    using assms(3-5) read_loop_pos [where fs = fs and sz = "CHUNK_SIZE s" and f = "[]"] by simp
  with opts assms(6)
  show "\<exists>opts. create_streaming_options self s = Inr opts \<and>
            audio_generator self s fs audio_file_path = ([session_options opts], None)"
    by (simp add: audio_generator_def)
  show "\<forall>msgs. response_stream self s fs RecognizeStreaming audio_file_path = (msgs, None) \<and>
            filter commits msgs = [] \<longrightarrow>
            fst (transcribe self s fs RecognizeStreaming audio_file_path save_intermediate) =
              Inr ('''', [])"
  proof (intro allI impI)
    fix msgs
    assume a: "response_stream self s fs RecognizeStreaming audio_file_path = (msgs, None) \<and>
            filter commits msgs = []"
    then have "fst (transcribe self s fs RecognizeStreaming audio_file_path save_intermediate) =
       Inr (join '' '' (map final_text (filter commits msgs)),
            map final_text (filter commits msgs))"
      using transcribe_clean [where self = self and s = s and fs = fs
        and R = RecognizeStreaming and p = audio_file_path and msgs = msgs
        and save = save_intermediate]
      by simp
    with a show "fst (transcribe self s fs RecognizeStreaming audio_file_path save_intermediate) =
       Inr ('''', [])"
      by simp
  qed
qed

theorem empty_audio_source_witness:
  "int64 (SAMPLE_RATE example_settings) \<and> int64 (AUDIO_CHANNELS example_settings) \<and>
   0 < CHUNK_SIZE example_settings \<and>
   CHUNK_SIZE example_settings \<le> PY_SSIZE_T_MAX - PyBytesObject_SIZE \<and>
   can_allocate example_fs (nat (CHUNK_SIZE example_settings)) \<and>
   open_rb example_fs ''empty.pcm'' = Inr [] \<and>
   length (fst (audio_generator example_client example_settings example_fs ''empty.pcm'')) = 1 \<and>
   snd (audio_generator example_client example_settings example_fs ''empty.pcm'') = None \<and>
   response_stream example_client example_settings example_fs
     (example_server ([partial_event ''hm''], None)) ''empty.pcm'' =
     ([partial_event ''hm''], None) \<and>
   filter commits [partial_event ''hm''] = [] \<and>
   fst (transcribe example_client example_settings example_fs
     (example_server ([partial_event ''hm''], None)) ''empty.pcm'' False) = Inr ('''', [])"
proof -
  have hyps: "int64 (SAMPLE_RATE example_settings)" "int64 (AUDIO_CHANNELS example_settings)"
    "0 < CHUNK_SIZE example_settings"
    "CHUNK_SIZE example_settings \<le> PY_SSIZE_T_MAX - PyBytesObject_SIZE"
    "can_allocate example_fs (nat (CHUNK_SIZE example_settings))"
    "open_rb example_fs ''empty.pcm'' = Inr []"
    by (simp_all add: int64_def PY_SSIZE_T_MAX_def PyBytesObject_SIZE_def open_rb_def)
  from hyps show ?thesis
    using empty_audio_source
      [where self = example_client and s = example_settings and fs = example_fs
         and audio_file_path = "''empty.pcm''"
         and RecognizeStreaming = "example_server ([partial_event ''hm''], None)"
         and save_intermediate = False]
    by auto
qed

subsection \<open>The recognition configuration\<close>

text \<open>
  C10. What \<^verbatim>\<open>_create_streaming_options\<close> returns or raises does not depend on the client
  object, hence not on its API key, and depends on the settings through the sample rate
  and the channel count only. When these two are \<^verbatim>\<open>int64\<close> values it returns the
  configuration that carries them and, in its other fields, the constants of the source.
\<close>

theorem streaming_options_are_constant:
  "create_streaming_options self s = create_streaming_options self' s \<and>
   (SAMPLE_RATE s = SAMPLE_RATE s' \<and> AUDIO_CHANNELS s = AUDIO_CHANNELS s' \<longrightarrow>
      create_streaming_options self s = create_streaming_options self' s') \<and>
   (int64 (SAMPLE_RATE s) \<and> int64 (AUDIO_CHANNELS s) \<longrightarrow>
      create_streaming_options self s =
        Inr \<lparr>recognition_model =
               \<lparr>audio_format =
                  \<lparr>raw_audio =
                     \<lparr>audio_encoding = LINEAR16_PCM, sample_rate_hertz = SAMPLE_RATE s,
                      audio_channel_count = AUDIO_CHANNELS s\<rparr>\<rparr>,
                text_normalization =
                  \<lparr>text_normalization_mode = TEXT_NORMALIZATION_ENABLED,
                   profanity_filter = True, literature_text = False\<rparr>,
                language_restriction =
                  \<lparr>restriction_type = WHITELIST, language_code = [''ru-RU'']\<rparr>,
                audio_processing_type = REAL_TIME\<rparr>\<rparr>)"
  by (simp add: create_streaming_options_def new_RawAudio_def)

theorem streaming_options_are_constant_witness:
  "int64 (SAMPLE_RATE example_settings) \<and> int64 (AUDIO_CHANNELS example_settings) \<and>
   create_streaming_options \<lparr>api_key = ''one''\<rparr> example_settings =
   create_streaming_options \<lparr>api_key = ''two''\<rparr>
     (example_settings\<lparr>CHUNK_SIZE := 4096, YANDEX_ENDPOINT := ''localhost:443''\<rparr>) \<and>
   create_streaming_options \<lparr>api_key = ''one''\<rparr> example_settings =
     Inr \<lparr>recognition_model =
            \<lparr>audio_format =
               \<lparr>raw_audio =
                  \<lparr>audio_encoding = LINEAR16_PCM, sample_rate_hertz = 8000,
                   audio_channel_count = 1\<rparr>\<rparr>,
             text_normalization =
               \<lparr>text_normalization_mode = TEXT_NORMALIZATION_ENABLED,
                profanity_filter = True, literature_text = False\<rparr>,
             language_restriction =
               \<lparr>restriction_type = WHITELIST, language_code = [''ru-RU'']\<rparr>,
             audio_processing_type = REAL_TIME\<rparr>\<rparr>"
proof -
  have in_range: "int64 (SAMPLE_RATE example_settings)" "int64 (AUDIO_CHANNELS example_settings)"
    by (simp_all add: int64_def)
  from in_range show ?thesis
    using streaming_options_are_constant
      [where self = "\<lparr>api_key = ''one''\<rparr>" and self' = "\<lparr>api_key = ''two''\<rparr>"
         and s = example_settings
         and s' = "example_settings\<lparr>CHUNK_SIZE := 4096, YANDEX_ENDPOINT := ''localhost:443''\<rparr>"]
    by (simp add: create_streaming_options_def new_RawAudio_def)
qed

text \<open>
  C4, as stated, fails: with a sample rate of zero and a channel count of minus one the
  configuration is built, the generator yields it carrying those values, and the call
  returns normally when the server closes the stream.
\<close>

theorem non_positive_settings_counterexample:
  "SAMPLE_RATE (example_settings\<lparr>SAMPLE_RATE := 0, AUDIO_CHANNELS := - 1\<rparr>) \<le> 0 \<and>
   AUDIO_CHANNELS (example_settings\<lparr>SAMPLE_RATE := 0, AUDIO_CHANNELS := - 1\<rparr>) \<le> 0 \<and>
   audio_generator example_client (example_settings\<lparr>SAMPLE_RATE := 0, AUDIO_CHANNELS := - 1\<rparr>)
     example_fs ''empty.pcm'' =
     ([session_options
         \<lparr>recognition_model =
            \<lparr>audio_format =
               \<lparr>raw_audio =
                  \<lparr>audio_encoding = LINEAR16_PCM, sample_rate_hertz = 0,
                   audio_channel_count = - 1\<rparr>\<rparr>,
             text_normalization =
               \<lparr>text_normalization_mode = TEXT_NORMALIZATION_ENABLED, profanity_filter = True,
                literature_text = False\<rparr>,
             language_restriction =
               \<lparr>restriction_type = WHITELIST, language_code = [''ru-RU'']\<rparr>,
             audio_processing_type = REAL_TIME\<rparr>\<rparr>], None) \<and>
   fst (transcribe example_client (example_settings\<lparr>SAMPLE_RATE := 0, AUDIO_CHANNELS := - 1\<rparr>)
     example_fs (example_server ([], None)) ''empty.pcm'' False) = Inr ('''', [])"
proof -
  have "read_loop example_fs 2 [] = ([], None)"
    by (subst read_loop.simps)
       (simp add: f_read_def PY_SSIZE_T_MAX_def PyBytesObject_SIZE_def)
  then show ?thesis
    by (simp add: audio_generator_def create_streaming_options_def new_RawAudio_def int64_def
        open_rb_def transcribe_def Let_def)
qed

text \<open>
  C4, amended. The configuration is built without any check of its own: when the sample
  rate or the channel count is not positive, and both are \<^verbatim>\<open>int64\<close> values, the method
  returns the configuration carrying the two values as they are, and that configuration
  is the first request the generator yields.
\<close>

theorem settings_are_passed_through_unchecked:
  assumes "SAMPLE_RATE s \<le> 0 \<or> AUDIO_CHANNELS s \<le> 0"
    and "int64 (SAMPLE_RATE s)" and "int64 (AUDIO_CHANNELS s)"
  shows "\<exists>opts. create_streaming_options self s = Inr opts \<and>
    sample_rate_hertz (raw_audio (audio_format (recognition_model opts))) = SAMPLE_RATE s \<and>
    audio_channel_count (raw_audio (audio_format (recognition_model opts))) = AUDIO_CHANNELS s \<and>
    hd (fst (audio_generator self s fs audio_file_path)) = session_options opts"
  using assms(2,3) create_streaming_options_returns [where s = s and self = self]
  by (simp add: audio_generator_def yield_fst)

theorem settings_are_passed_through_unchecked_witness:
  "(SAMPLE_RATE (example_settings\<lparr>SAMPLE_RATE := 0, AUDIO_CHANNELS := - 1\<rparr>) \<le> 0 \<or>
    AUDIO_CHANNELS (example_settings\<lparr>SAMPLE_RATE := 0, AUDIO_CHANNELS := - 1\<rparr>) \<le> 0) \<and>
   int64 (SAMPLE_RATE (example_settings\<lparr>SAMPLE_RATE := 0, AUDIO_CHANNELS := - 1\<rparr>)) \<and>
   int64 (AUDIO_CHANNELS (example_settings\<lparr>SAMPLE_RATE := 0, AUDIO_CHANNELS := - 1\<rparr>)) \<and>
   (\<exists>opts. create_streaming_options example_client
        (example_settings\<lparr>SAMPLE_RATE := 0, AUDIO_CHANNELS := - 1\<rparr>) = Inr opts \<and>
      sample_rate_hertz (raw_audio (audio_format (recognition_model opts))) = 0 \<and>
      audio_channel_count (raw_audio (audio_format (recognition_model opts))) = - 1)"
proof -
  have in_range:
    "int64 (SAMPLE_RATE (example_settings\<lparr>SAMPLE_RATE := 0, AUDIO_CHANNELS := - 1\<rparr>))"
    "int64 (AUDIO_CHANNELS (example_settings\<lparr>SAMPLE_RATE := 0, AUDIO_CHANNELS := - 1\<rparr>))"
    by (simp_all add: int64_def)
  from in_range show ?thesis
    using settings_are_passed_through_unchecked
      [where self = example_client
         and s = "example_settings\<lparr>SAMPLE_RATE := 0, AUDIO_CHANNELS := - 1\<rparr>"
         and fs = example_fs and audio_file_path = "''empty.pcm''"]
    by auto
qed

end
